theory Spec2Isabelle
  imports Complex_Main
begin

section \<open>Explicit-shooting ODE integration component\<close>

text \<open>
  A shallow embedding of \<^verbatim>\<open>ODEIntegrationComp\<close>
  (\<^verbatim>\<open>dymos/transcriptions/explicit_shooting/ode_integration_comp.py\<close>).

  Conventions of the embedding.
  \<^item> A finite \<^verbatim>\<open>float64\<close> is an exact \<^typ>\<open>real\<close>: rounding and overflow are not
    modelled. The one operation of the file that can leave the finite numbers from finite
    operands is the reciprocal \<^verbatim>\<open>1./td\<close> of \<^verbatim>\<open>_f_augmented\<close>; its result and everything
    computed from it has the type \<open>f64\<close> below.
  \<^item> A one-dimensional array is a list, a two-dimensional array the list of its rows.
  \<^item> An \<^verbatim>\<open>np.s_[a:b]\<close> slice object with non-negative bounds is the pair \<open>(a, b)\<close>.
  \<^item> A Python dictionary is a map; the ordered option dictionaries of the constructor
    are association lists in insertion order, whose keys are distinct in every
    well-formed dictionary.
  \<^item> An exception is a value of the type \<open>error\<close>; a function that can raise returns
    \<open>error + 'a\<close>.
  \<^item> The attributes of \<^verbatim>\<open>self\<close> are the fields of the record \<open>comp\<close>, without the
    leading underscore of the private ones.
  \<^item> The OpenMDAO registrations (\<^verbatim>\<open>add_input\<close>, \<^verbatim>\<open>add_output\<close>, \<^verbatim>\<open>declare_partials\<close>)
    and the set-up of the evaluation sub-problem have no effect on the layout and are left
    out, as are the two local name lists of \<^verbatim>\<open>_configure_storage\<close> that are never read.
\<close>

datatype error = RuntimeError | KeyError | IndexError | ValueError | TypeError | SolverError

datatype 'a ndarray = Arr1 "'a list" | Arr2 "'a list list"

datatype f64 = Fin real | NonFinite

type_synonym slice = "nat \<times> nat"

text \<open>\<^verbatim>\<open>np.s_[:, a:b]\<close> is \<open>Cols a b\<close> and \<^verbatim>\<open>np.s_[:, k]\<close> is \<open>Col k\<close>.\<close>

datatype col_index = Cols nat nat | Col nat

text \<open>The entries of an options dictionary that the component reads.\<close>

record var_options =
  opt_shape :: "nat list"
  opt_order :: nat

type_synonym catalog = "(string \<times> var_options) list"

text \<open>
  The attributes of a \<^verbatim>\<open>GridData\<close> that the component reads. The class is not part of the
  file; \<^verbatim>\<open>subset_num_nodes['all']\<close> is the field \<open>subset_num_nodes_all\<close>, and so on.
\<close>

record grid_data =
  num_segments :: nat
  segment_ends :: "real list"
  node_ptau :: "real list"
  segment_indices :: "(nat \<times> nat) list"
  subset_num_nodes_all :: nat
  subset_num_nodes_control_input :: nat
  subset_node_indices_control_input :: "nat list"
  subset_num_nodes_per_segment_all :: "nat list"

record comp =
  time_name :: string
  state_options :: catalog
  parameter_options :: catalog
  control_options :: catalog
  polynomial_control_options :: catalog
  input_grid_data :: grid_data
  output_grid_data :: grid_data
  standalone_mode :: bool
  propagate_derivs_option :: bool
  inputs_cache :: string
  x_size :: nat
  p_size :: nat
  u_size :: nat
  up_size :: nat
  theta_size :: nat
  z_size :: nat
  state_rate_of_names :: "string list"
  totals_of_names :: "string list"
  totals_wrt_names :: "string list"
  num_control_input_nodes :: nat
  num_output_rows :: nat
  state_input_names :: "string \<rightharpoonup> string"
  state_output_names :: "string \<rightharpoonup> string"
  state_idxs :: "string \<rightharpoonup> slice"
  state_idxs_in_z :: "string \<rightharpoonup> slice"
  parameter_idxs :: "string \<rightharpoonup> slice"
  parameter_idxs_in_theta :: "string \<rightharpoonup> slice"
  parameter_idxs_in_z :: "string \<rightharpoonup> slice"
  param_input_names :: "string \<rightharpoonup> string"
  control_idxs_in_theta :: "string \<rightharpoonup> slice"
  control_idxs_in_z :: "string \<rightharpoonup> slice"
  control_input_names :: "string \<rightharpoonup> string"
  polynomial_control_idxs_in_theta :: "string \<rightharpoonup> slice"
  polynomial_control_idxs_in_z :: "string \<rightharpoonup> slice"
  polynomial_control_input_names :: "string \<rightharpoonup> string"
  partial_dx_dz_idxs :: "string \<times> string \<rightharpoonup> col_index"
  nnps :: "nat list"
  t_out :: "real list list"
  x_out :: "real list list"
  dx_dz_out :: "real list list option"
  dt_dz_out :: "real list list option"
  dx_dz_0 :: "real list list"
  dt_dz_0 :: "real list list"
  dtheta_dz :: "real list list"

subsection \<open>Array helpers\<close>

text \<open>\<^verbatim>\<open>np.prod(shape, dtype=int)\<close>: the number of elements of an array of that shape.\<close>

definition np_prod :: "nat list \<Rightarrow> nat" where
  "np_prod shp = prod_list shp"

definition np_zeros :: "nat \<Rightarrow> nat \<Rightarrow> real list list" where
  "np_zeros m n = replicate m (replicate n 0)"

definition np_eye :: "nat \<Rightarrow> real list list" where
  "np_eye n = map (\<lambda>i. map (\<lambda>j. if i = j then 1 else 0) [0..<n]) [0..<n]"

text \<open>
  \<^verbatim>\<open>M[:, a:a+w] = V\<close> for a value \<open>V\<close> with as many rows as \<open>M\<close> and \<open>w\<close> columns that
  fit into \<open>M\<close>: the only form of block assignment the set-up code uses.
\<close>

definition np_set_cols :: "real list list \<Rightarrow> nat \<Rightarrow> real list list \<Rightarrow> real list list" where
  "np_set_cols M a V = map2 (\<lambda>row v. take a row @ v @ drop (a + length v) row) M V"

definition dict_get :: "('k \<rightharpoonup> 'v) \<Rightarrow> 'k \<Rightarrow> error + 'v" where
  "dict_get d k = (case d k of None \<Rightarrow> Inl KeyError | Some v \<Rightarrow> Inr v)"

text \<open>A loop whose body can raise: the first exception ends it.\<close>

fun for_each :: "('a \<Rightarrow> 's \<Rightarrow> error + 's) \<Rightarrow> 'a list \<Rightarrow> 's \<Rightarrow> error + 's" where
  "for_each body [] s = Inr s"
| "for_each body (x # xs) s =
     (case body x s of Inl e \<Rightarrow> Inl e | Inr s' \<Rightarrow> for_each body xs s')"

subsection \<open>The constructor\<close>

definition init ::
  "grid_data \<Rightarrow> string \<Rightarrow> catalog \<Rightarrow> catalog \<Rightarrow> catalog \<Rightarrow> catalog \<Rightarrow> grid_data option
     \<Rightarrow> bool \<Rightarrow> bool \<Rightarrow> comp" where
  "init igd t_name states params controls pcs ogd standalone propagate_derivs =
     \<lparr> time_name = t_name,
       state_options = states,
       parameter_options = params,
       control_options = controls,
       polynomial_control_options = pcs,
       input_grid_data = igd,
       output_grid_data = (case ogd of None \<Rightarrow> igd | Some g \<Rightarrow> g),
       standalone_mode = standalone,
       propagate_derivs_option = propagate_derivs,
       inputs_cache = '''',
       x_size = 0, p_size = 0, u_size = 0, up_size = 0, theta_size = 0, z_size = 0,
       state_rate_of_names = [], totals_of_names = [], totals_wrt_names = [],
       num_control_input_nodes = subset_num_nodes_control_input igd,
       num_output_rows = 0,
       state_input_names = Map.empty, state_output_names = Map.empty,
       state_idxs = Map.empty, state_idxs_in_z = Map.empty,
       parameter_idxs = Map.empty, parameter_idxs_in_theta = Map.empty,
       parameter_idxs_in_z = Map.empty, param_input_names = Map.empty,
       control_idxs_in_theta = Map.empty, control_idxs_in_z = Map.empty,
       control_input_names = Map.empty,
       polynomial_control_idxs_in_theta = Map.empty,
       polynomial_control_idxs_in_z = Map.empty,
       polynomial_control_input_names = Map.empty,
       partial_dx_dz_idxs = Map.empty,
       nnps = [], t_out = [], x_out = [], dx_dz_out = None, dt_dz_out = None,
       dx_dz_0 = [], dt_dz_0 = [], dtheta_dz = [] \<rparr>"

subsection \<open>Configuration of time, states, parameters and controls\<close>

definition configure_time :: "comp \<Rightarrow> comp" where
  "configure_time c =
     c\<lparr> totals_of_names := totals_of_names c @ [time_name c],
        totals_wrt_names := totals_wrt_names c @ [time_name c, ''t_initial'', ''t_duration''] \<rparr>"

definition configure_states_step :: "string \<times> var_options \<Rightarrow> comp \<Rightarrow> comp" where
  "configure_states_step = (\<lambda>(state_name, options) c.
     let state_size = np_prod (opt_shape options) in
     c\<lparr> state_input_names := (state_input_names c)(state_name \<mapsto> ''states:'' @ state_name),
        state_output_names := (state_output_names c)(state_name \<mapsto> ''states_out:'' @ state_name),
        state_rate_of_names := state_rate_of_names c
           @ [''state_rate_collector.state_rates:'' @ state_name @ ''_rate''],
        totals_wrt_names := totals_wrt_names c @ [''states:'' @ state_name],
        state_idxs := (state_idxs c)(state_name \<mapsto> (x_size c, x_size c + state_size)),
        x_size := x_size c + state_size \<rparr>)"

definition configure_states :: "comp \<Rightarrow> comp" where
  "configure_states c =
     fold configure_states_step (state_options c)
       (c\<lparr> x_size := 0, state_input_names := Map.empty, state_output_names := Map.empty,
           state_idxs := Map.empty, state_idxs_in_z := Map.empty \<rparr>)"

definition configure_parameters_step :: "string \<times> var_options \<Rightarrow> comp \<Rightarrow> comp" where
  "configure_parameters_step = (\<lambda>(param_name, options) c.
     let param_size = np_prod (opt_shape options) in
     c\<lparr> param_input_names := (param_input_names c)(param_name \<mapsto> ''parameters:'' @ param_name),
        totals_wrt_names := totals_wrt_names c @ [''parameters:'' @ param_name],
        parameter_idxs := (parameter_idxs c)(param_name \<mapsto> (p_size c, p_size c + param_size)),
        p_size := p_size c + param_size \<rparr>)"

definition configure_parameters :: "comp \<Rightarrow> comp" where
  "configure_parameters c =
     fold configure_parameters_step (parameter_options c)
       (c\<lparr> p_size := 0, parameter_idxs := Map.empty, parameter_idxs_in_theta := Map.empty,
           parameter_idxs_in_z := Map.empty, param_input_names := Map.empty \<rparr>)"

definition configure_controls_step :: "string \<times> var_options \<Rightarrow> comp \<Rightarrow> comp" where
  "configure_controls_step = (\<lambda>(control_name, options) c.
     let control_param_shape = num_control_input_nodes c # opt_shape options;
         control_param_size = np_prod control_param_shape in
     c\<lparr> control_input_names := (control_input_names c)(control_name \<mapsto> ''controls:'' @ control_name),
        totals_wrt_names := totals_wrt_names c @ [''controls:'' @ control_name],
        u_size := u_size c + control_param_size \<rparr>)"

definition configure_controls :: "comp \<Rightarrow> comp" where
  "configure_controls c =
     fold configure_controls_step (control_options c)
       (c\<lparr> u_size := 0, control_idxs_in_theta := Map.empty, control_idxs_in_z := Map.empty,
           control_input_names := Map.empty \<rparr>)"

definition configure_polynomial_controls_step :: "string \<times> var_options \<Rightarrow> comp \<Rightarrow> comp" where
  "configure_polynomial_controls_step = (\<lambda>(name, options) c.
     let num_input_nodes = opt_order options + 1;
         control_param_shape = num_input_nodes # opt_shape options;
         control_param_size = np_prod control_param_shape in
     c\<lparr> polynomial_control_input_names :=
          (polynomial_control_input_names c)(name \<mapsto> ''polynomial_controls:'' @ name),
        totals_wrt_names := totals_wrt_names c @ [''polynomial_controls:'' @ name],
        up_size := up_size c + control_param_size \<rparr>)"

definition configure_polynomial_controls :: "comp \<Rightarrow> comp" where
  "configure_polynomial_controls c =
     fold configure_polynomial_controls_step (polynomial_control_options c)
       (c\<lparr> up_size := 0, polynomial_control_idxs_in_theta := Map.empty,
           polynomial_control_idxs_in_z := Map.empty,
           polynomial_control_input_names := Map.empty \<rparr>)"

subsection \<open>The column map of the flattened sensitivity block\<close>

definition err_bind :: "error + 'a \<Rightarrow> ('a \<Rightarrow> error + 'b) \<Rightarrow> error + 'b" where
  "err_bind r f = (case r of Inl e \<Rightarrow> Inl e | Inr x \<Rightarrow> f x)"

type_synonym col_map = "string \<times> string \<rightharpoonup> col_index"

text \<open>
  The body shared by the four inner loops of \<^verbatim>\<open>_build_dx_dz_idxs\<close>: they differ in the
  dictionary of input names and in the formula for \<^verbatim>\<open>input_size\<close> only.
\<close>

definition dx_dz_block ::
  "string \<Rightarrow> nat \<Rightarrow> (string \<rightharpoonup> string) \<Rightarrow> (var_options \<Rightarrow> nat)
     \<Rightarrow> string \<times> var_options \<Rightarrow> nat \<times> col_map \<Rightarrow> error + nat \<times> col_map" where
  "dx_dz_block output_name output_state_size names size_of = (\<lambda>(name, options) (dx_dz_idx, d).
     err_bind (dict_get names name) (\<lambda>input_name.
       let input_size = size_of options;
           idxs = Cols dx_dz_idx (dx_dz_idx + output_state_size * input_size)
       in Inr (dx_dz_idx + output_state_size * input_size, d((output_name, input_name) \<mapsto> idxs))))"

definition build_dx_dz_idxs_step ::
  "comp \<Rightarrow> string \<times> var_options \<Rightarrow> nat \<times> col_map \<Rightarrow> error + nat \<times> col_map" where
  "build_dx_dz_idxs_step c = (\<lambda>(output_state, output_state_options) s.
     err_bind (dict_get (state_output_names c) output_state) (\<lambda>output_name.
       let output_state_size = np_prod (opt_shape output_state_options) in
       err_bind (for_each (dx_dz_block output_name output_state_size (state_input_names c)
                   (\<lambda>options. np_prod (opt_shape options))) (state_options c) s)
         (\<lambda>(dx_dz_idx, d).
            let d1 = d((output_name, ''t_initial'') \<mapsto> Col dx_dz_idx);
                d2 = d1((output_name, ''t_duration'') \<mapsto> Col (dx_dz_idx + 1))
            in
            err_bind (for_each (dx_dz_block output_name output_state_size (param_input_names c)
                        (\<lambda>options. np_prod (opt_shape options)))
                        (parameter_options c) (dx_dz_idx + 2, d2))
              (\<lambda>s2.
            err_bind (for_each (dx_dz_block output_name output_state_size (control_input_names c)
                        (\<lambda>options. np_prod (opt_shape options)
                            * subset_num_nodes_control_input (input_grid_data c)))
                        (control_options c) s2)
              (\<lambda>s3.
            for_each (dx_dz_block output_name output_state_size (polynomial_control_input_names c)
                        (\<lambda>options. np_prod (opt_shape options) * (opt_order options + 1)))
                        (polynomial_control_options c) s3)))))"

definition build_dx_dz_idxs :: "comp \<Rightarrow> error + comp" where
  "build_dx_dz_idxs c =
     err_bind (for_each (build_dx_dz_idxs_step c) (state_options c) (0, Map.empty))
       (\<lambda>(dx_dz_idx, d). Inr (c\<lparr> partial_dx_dz_idxs := d \<rparr>))"

subsection \<open>Storage and the index layout of \<open>theta\<close> and \<open>z\<close>\<close>

definition storage_states_step :: "string \<times> var_options \<Rightarrow> nat \<times> comp \<Rightarrow> nat \<times> comp" where
  "storage_states_step = (\<lambda>(state_name, options) (start_z, c).
     let state_size = np_prod (opt_shape options) in
     (start_z + state_size,
      c\<lparr> state_idxs_in_z := (state_idxs_in_z c)(state_name \<mapsto> (start_z, start_z + state_size)) \<rparr>))"

definition storage_parameters_step ::
  "string \<times> var_options \<Rightarrow> nat \<times> nat \<times> comp \<Rightarrow> nat \<times> nat \<times> comp" where
  "storage_parameters_step = (\<lambda>(param_name, options) (start_z, start_theta, c).
     let param_size = np_prod (opt_shape options) in
     (start_z + param_size, start_theta + param_size,
      c\<lparr> parameter_idxs_in_z :=
           (parameter_idxs_in_z c)(param_name \<mapsto> (start_z, start_z + param_size)),
         parameter_idxs_in_theta :=
           (parameter_idxs_in_theta c)(param_name \<mapsto> (start_theta, start_theta + param_size)) \<rparr>))"

definition storage_controls_step ::
  "nat \<Rightarrow> string \<times> var_options \<Rightarrow> nat \<times> nat \<times> comp \<Rightarrow> nat \<times> nat \<times> comp" where
  "storage_controls_step len_ptau = (\<lambda>(control_name, options) (start_z, start_theta, c).
     let control_param_shape = len_ptau # opt_shape options;
         control_param_size = np_prod control_param_shape in
     (start_z + control_param_size, start_theta + control_param_size,
      c\<lparr> control_idxs_in_z :=
           (control_idxs_in_z c)(control_name \<mapsto> (start_z, start_z + control_param_size)),
         control_idxs_in_theta :=
           (control_idxs_in_theta c)(control_name \<mapsto>
              (start_theta, start_theta + control_param_size)) \<rparr>))"

definition storage_polynomial_controls_step ::
  "string \<times> var_options \<Rightarrow> nat \<times> nat \<times> comp \<Rightarrow> nat \<times> nat \<times> comp" where
  "storage_polynomial_controls_step = (\<lambda>(pc_name, options) (start_z, start_theta, c).
     let num_input_nodes = opt_order options + 1;
         control_param_shape = num_input_nodes # opt_shape options;
         control_param_size = np_prod control_param_shape in
     (start_z + control_param_size, start_theta + control_param_size,
      c\<lparr> polynomial_control_idxs_in_z :=
           (polynomial_control_idxs_in_z c)(pc_name \<mapsto> (start_z, start_z + control_param_size)),
         polynomial_control_idxs_in_theta :=
           (polynomial_control_idxs_in_theta c)(pc_name \<mapsto>
              (start_theta, start_theta + control_param_size)) \<rparr>))"

text \<open>
  The four loops of \<^verbatim>\<open>_configure_storage\<close> that assign the slices in \<open>z\<close> and \<open>theta\<close>.
  \<open>len_ptau\<close> is \<^verbatim>\<open>len(control_input_node_ptau)\<close>.
\<close>

definition storage_layout :: "nat \<Rightarrow> comp \<Rightarrow> comp" where
  "storage_layout len_ptau c =
     (let (start_z1, c1) = fold storage_states_step (state_options c) (0, c);
          (start_z2, start_theta2, c2) =
             fold storage_parameters_step (parameter_options c1) (x_size c1 + 2, 2, c1);
          (start_z3, start_theta3, c3) =
             fold (storage_controls_step len_ptau) (control_options c2) (start_z2, start_theta2, c2);
          (start_z4, start_theta4, c4) =
             fold storage_polynomial_controls_step (polynomial_control_options c3)
               (start_z3, start_theta3, c3)
      in c4)"

text \<open>
  The buffers and the constant matrices. \<^verbatim>\<open>[:, -theta_size:]\<close> starts at column
  \<open>z_size - theta_size\<close>; \<open>theta_size\<close> is at least 2 here, so the negative index is a
  proper one, and \<open>x_size < z_size\<close>, so the single entry of \<^verbatim>\<open>_dt_dz_0\<close> is in range.
\<close>

definition storage_buffers :: "comp \<Rightarrow> comp" where
  "storage_buffers c =
     (let ogd = output_grid_data c;
          c1 = c\<lparr> nnps := subset_num_nodes_per_segment_all ogd \<rparr>;
          nn = sum_list (nnps c1);
          c2 = c1\<lparr> t_out := np_zeros nn 1, x_out := np_zeros nn (x_size c1) \<rparr>
      in if propagate_derivs_option c2
         then c2\<lparr> dx_dz_out := Some (np_zeros nn (x_size c2 * z_size c2)),
                  dt_dz_out := Some (np_zeros nn (z_size c2)) \<rparr>
         else c2\<lparr> dx_dz_out := None, dt_dz_out := None \<rparr>)"

definition storage_initial_values :: "comp \<Rightarrow> comp" where
  "storage_initial_values c =
     c\<lparr> dx_dz_0 := np_set_cols (np_zeros (x_size c) (z_size c)) 0 (np_eye (x_size c)),
        dt_dz_0 := [(replicate (z_size c) 0)[x_size c := 1]],
        dtheta_dz := np_set_cols (np_zeros (theta_size c) (z_size c))
                       (z_size c - theta_size c) (np_eye (theta_size c)) \<rparr>"

definition configure_storage :: "comp \<Rightarrow> error + comp" where
  "configure_storage c =
     (let igd = input_grid_data c in
      if list_ex (\<lambda>k. length (node_ptau igd) \<le> k) (subset_node_indices_control_input igd)
      then Inl IndexError
      else
        let control_input_node_ptau =
              map (\<lambda>k. node_ptau igd ! k) (subset_node_indices_control_input igd);
            c1 = c\<lparr> theta_size := 2 + p_size c + u_size c + up_size c \<rparr>;
            c2 = c1\<lparr> z_size := x_size c1 + theta_size c1 \<rparr>;
            c3 = storage_layout (length control_input_node_ptau) c2;
            c4 = storage_buffers c3
        in err_bind (build_dx_dz_idxs c4) (\<lambda>c5. Inr (storage_initial_values c5)))"

subsection \<open>Set-up\<close>

text \<open>
  Modelled from the spec: \<^verbatim>\<open>GridData.is_aligned_with\<close> is not part of the file. The spec
  says of the grid collaborator that it "validates that an input grid and output grid
  share identical segment boundaries".
\<close>

definition is_aligned_with :: "grid_data \<Rightarrow> grid_data \<Rightarrow> bool" where
  "is_aligned_with g other = (segment_ends g = segment_ends other)"

definition setup_time :: "comp \<Rightarrow> comp" where
  "setup_time c = (if standalone_mode c then configure_time c else c)"

definition setup_states :: "comp \<Rightarrow> comp" where
  "setup_states c = (if standalone_mode c then configure_states c else c)"

definition setup_parameters :: "comp \<Rightarrow> comp" where
  "setup_parameters c = (if standalone_mode c then configure_parameters c else c)"

definition setup_controls :: "comp \<Rightarrow> comp" where
  "setup_controls c = (if standalone_mode c then configure_controls c else c)"

definition setup_polynomial_controls :: "comp \<Rightarrow> comp" where
  "setup_polynomial_controls c =
     (if standalone_mode c then configure_polynomial_controls c else c)"

definition setup_storage :: "comp \<Rightarrow> error + comp" where
  "setup_storage c = (if standalone_mode c then configure_storage c else Inr c)"

definition setup_comp :: "comp \<Rightarrow> error + comp" where
  "setup_comp c =
     (if \<not> is_aligned_with (input_grid_data c) (output_grid_data c) then Inl RuntimeError
      else
        let c0 = c\<lparr> num_output_rows := subset_num_nodes_all (output_grid_data c),
                    totals_of_names := [], totals_wrt_names := [] \<rparr>;
            c1 = setup_time c0;
            c2 = setup_parameters c1;
            c3 = setup_controls c2;
            c4 = setup_polynomial_controls c3;
            c5 = setup_states c4
        in setup_storage c5)"

subsection \<open>Arithmetic that can leave the finite numbers\<close>

text \<open>
  \<^verbatim>\<open>1./td\<close> on a \<^verbatim>\<open>float64\<close> zero does not raise: numpy issues a \<^verbatim>\<open>RuntimeWarning\<close> and the
  quotient is \<^verbatim>\<open>inf\<close>. \<open>NonFinite\<close> stands for \<^verbatim>\<open>inf\<close>, \<^verbatim>\<open>-inf\<close> and \<^verbatim>\<open>nan\<close>; a sum or a
  product with such an operand is again one of them.
\<close>

definition np_recip :: "real \<Rightarrow> f64" where
  "np_recip td = (if td = 0 then NonFinite else Fin (1 / td))"

fun fadd :: "f64 \<Rightarrow> f64 \<Rightarrow> f64" where
  "fadd (Fin a) (Fin b) = Fin (a + b)"
| "fadd _ _ = NonFinite"

fun fmul :: "f64 \<Rightarrow> f64 \<Rightarrow> f64" where
  "fmul (Fin a) (Fin b) = Fin (a * b)"
| "fmul _ _ = NonFinite"

definition fsum :: "f64 list \<Rightarrow> f64" where
  "fsum xs = foldr fadd xs (Fin 0)"

definition lift :: "real list list \<Rightarrow> f64 list list" where
  "lift M = map (map Fin) M"

subsection \<open>Indexing, reshaping and matrix arithmetic\<close>

definition np_index :: "'a list \<Rightarrow> nat \<Rightarrow> error + 'a" where
  "np_index xs i = (if i < length xs then Inr (xs ! i) else Inl IndexError)"

text \<open>\<^verbatim>\<open>xs[-n:]\<close>; for \<open>n = 0\<close> this is \<^verbatim>\<open>xs[0:]\<close>, the whole array.\<close>

definition np_last :: "nat \<Rightarrow> 'a list \<Rightarrow> 'a list" where
  "np_last n xs = (if n = 0 then xs else drop (length xs - n) xs)"

text \<open>\<^verbatim>\<open>xs[a:b]\<close> for non-negative bounds.\<close>

definition np_slice :: "'a list \<Rightarrow> nat \<Rightarrow> nat \<Rightarrow> 'a list" where
  "np_slice xs a b = take (b - a) (drop a xs)"

definition np_reshape :: "nat \<Rightarrow> nat \<Rightarrow> 'a list \<Rightarrow> error + 'a list list" where
  "np_reshape m n xs =
     (if length xs = m * n then Inr (map (\<lambda>i. take n (drop (i * n) xs)) [0..<m])
      else Inl ValueError)"

definition ncols :: "'a list list \<Rightarrow> nat" where
  "ncols M = (case M of [] \<Rightarrow> 0 | r # _ \<Rightarrow> length r)"

text \<open>
  \<^verbatim>\<open>A @ B\<close> and \<^verbatim>\<open>A + B\<close>. Operands whose shapes do not fit raise \<^verbatim>\<open>ValueError\<close>. numpy
  would broadcast a sum of matrices of different shapes when one of them has a single
  row or column; \<^verbatim>\<open>eval_ode\<close> allocates its results with the shapes \<open>(n_x, 1)\<close>,
  \<open>(n_x, n_x)\<close> and \<open>(n_x, n_theta)\<close>, so that the four products of \<^verbatim>\<open>_f_augmented\<close> have
  the same shape and the model treats a sum of different shapes as an error.
\<close>

definition np_matmul :: "f64 list list \<Rightarrow> f64 list list \<Rightarrow> error + f64 list list" where
  "np_matmul A B =
     (if list_all (\<lambda>r. length r = length B) A
      then Inr (map (\<lambda>r. map (\<lambda>j. fsum (map2 fmul r (map (\<lambda>b. b ! j) B))) [0..<ncols B]) A)
      else Inl ValueError)"

definition np_add :: "f64 list list \<Rightarrow> f64 list list \<Rightarrow> error + f64 list list" where
  "np_add A B =
     (if map length A = map length B then Inr (map2 (map2 fadd) A B) else Inl ValueError)"

subsection \<open>The dynamics handed to the solver\<close>

text \<open>
  \<^verbatim>\<open>eval_ode\<close> wraps the OpenMDAO sub-problem, which is outside the file's own logic: it is
  a parameter of the model, a function from the state array, the time, \<open>theta\<close> and the
  flag \<^verbatim>\<open>eval_derivs\<close> to the four arrays it returns (or an exception). The sub-problem
  remembers the segment index last set, so the callers below pass \<open>eval_ode\<close> already
  applied to that index. With \<^verbatim>\<open>eval_derivs=False\<close> the last three arrays are \<^verbatim>\<open>None\<close> in
  the source and not read by the caller.
\<close>

record ode_out =
  ode_x_dot :: "real list list"
  ode_f_x :: "real list list"
  ode_f_t :: "real list list"
  ode_f_theta :: "real list list"

type_synonym ode_eval = "real ndarray \<Rightarrow> real \<Rightarrow> real list \<Rightarrow> bool \<Rightarrow> error + ode_out"

definition f_augmented ::
  "comp \<Rightarrow> ode_eval \<Rightarrow> real \<Rightarrow> real list \<Rightarrow> real list \<Rightarrow> real list list
     \<Rightarrow> error + f64 ndarray" where
  "f_augmented c eval_ode t y theta dtheta_dz_arg =
     (let n_x = x_size c; n_theta = theta_size c; n_z = n_x + n_theta in
      err_bind (np_reshape 1 n_x (np_slice y 0 n_x)) (\<lambda>x.
      err_bind (np_index theta 1) (\<lambda>td.
      err_bind (np_reshape n_x n_z (np_slice y n_x (n_x + n_x * n_z))) (\<lambda>dx_dz.
      err_bind (np_reshape 1 n_z (np_last n_z y)) (\<lambda>dt_dz.
      err_bind (eval_ode (Arr2 x) t theta True) (\<lambda>out.
      if n_z \<le> n_x + 1 then Inl IndexError
      else
        let dh_dz = [(replicate n_z (Fin 0))[n_x + 1 := np_recip td]];
            dt_dz_dot = dh_dz
        in
        err_bind (np_matmul (lift (ode_f_x out)) (lift dx_dz)) (\<lambda>m1.
        err_bind (np_matmul (lift (ode_f_t out)) (lift dt_dz)) (\<lambda>m2.
        err_bind (np_add m1 m2) (\<lambda>s1.
        err_bind (np_matmul (lift (ode_f_theta out)) (lift dtheta_dz_arg)) (\<lambda>m3.
        err_bind (np_add s1 m3) (\<lambda>s2.
        err_bind (np_matmul (lift (ode_x_dot out)) dt_dz_dot) (\<lambda>m4.
        err_bind (np_add s2 m4) (\<lambda>dx_dz_dot.
        Inr (Arr1 (concat (lift (ode_x_dot out)) @ concat dx_dz_dot @ concat dt_dz_dot))
      )))))))))))))"

definition f_primal ::
  "comp \<Rightarrow> ode_eval \<Rightarrow> real \<Rightarrow> real list \<Rightarrow> real list \<Rightarrow> error + f64 ndarray" where
  "f_primal c eval_ode t x theta =
     err_bind (eval_ode (Arr1 x) t theta False) (\<lambda>out. Inr (Arr2 (lift (ode_x_dot out))))"

subsection \<open>Propagation\<close>

text \<open>
  \<^verbatim>\<open>solve_ivp\<close> with the method, the tolerances and the step bounds of the options is a
  parameter of the model: a function of the right-hand side, the time span, the requested
  times and the initial state that returns \<^verbatim>\<open>sol.t\<close> and \<^verbatim>\<open>sol.y.T\<close> or raises.
\<close>

record ivp_sol =
  sol_t :: "real list"
  sol_y_T :: "real list list"

type_synonym rhs = "real \<Rightarrow> real list \<Rightarrow> error + f64 ndarray"

type_synonym ivp_solver = "rhs \<Rightarrow> real \<times> real \<Rightarrow> real list \<Rightarrow> real list \<Rightarrow> error + ivp_sol"

text \<open>
  One call of the solver as \<^verbatim>\<open>_propagate\<close> makes it: the segment index set just before it,
  the arguments, and what the solver returned. \<open>call_dtheta_dz\<close> is the second element of
  \<^verbatim>\<open>args\<close>, absent when the primal dynamics are integrated.
\<close>

record ivp_call =
  call_segment :: nat
  call_t_span :: "real \<times> real"
  call_t_eval :: "real list"
  call_y0 :: "real list"
  call_theta :: "real list"
  call_dtheta_dz :: "real list list option"
  call_sol :: ivp_sol

text \<open>
  An input vector maps a name to the flat list of the elements of its value; the shape of
  the value is the shape the input was declared with.
\<close>

type_synonym vector = "string \<rightharpoonup> real list"

text \<open>
  \<^verbatim>\<open>xs[a:b] = v\<close> for a value of shape \<open>shp\<close>: leading axes of length one are dropped, a
  single element is repeated, and any other shape than that of the target raises.
\<close>

definition np_setitem :: "real list \<Rightarrow> slice \<Rightarrow> nat list \<Rightarrow> real list \<Rightarrow> error + real list" where
  "np_setitem xs sl shp v =
     (let lo = min (fst sl) (length xs);
          hi = max lo (min (snd sl) (length xs));
          s = dropWhile (\<lambda>d. d = 1) shp
      in if s = [hi - lo] then Inr (take lo xs @ v @ drop hi xs)
         else if s = [] then Inr (take lo xs @ replicate (hi - lo) (hd v) @ drop hi xs)
         else Inl ValueError)"

text \<open>\<^verbatim>\<open>xs[i] = v\<close> for an array value \<open>v\<close>, which must have exactly one element.\<close>

definition np_setelem :: "real list \<Rightarrow> nat \<Rightarrow> real list \<Rightarrow> error + real list" where
  "np_setelem xs i v =
     (if length xs \<le> i then Inl IndexError
      else case v of [r] \<Rightarrow> Inr (xs[i := r]) | _ \<Rightarrow> Inl ValueError)"

definition unpack_states_step ::
  "comp \<Rightarrow> vector \<Rightarrow> string \<times> var_options \<Rightarrow> real list \<Rightarrow> error + real list" where
  "unpack_states_step c inputs = (\<lambda>(state_name, options) x0.
     err_bind (dict_get (state_input_names c) state_name) (\<lambda>input_name.
     err_bind (dict_get inputs input_name) (\<lambda>state_initial_val.
     err_bind (dict_get (state_idxs c) state_name) (\<lambda>idxs.
     np_setitem x0 idxs (opt_shape options) state_initial_val))))"

text \<open>
  The three loops that copy parameters, controls and polynomial controls into \<open>theta\<close>
  differ in the dictionaries only. The values are flattened with \<^verbatim>\<open>ravel()\<close> first.
\<close>

definition unpack_theta_step ::
  "(string \<rightharpoonup> string) \<Rightarrow> (string \<rightharpoonup> slice) \<Rightarrow> vector \<Rightarrow> string \<times> var_options \<Rightarrow> real list
     \<Rightarrow> error + real list" where
  "unpack_theta_step names idxs_in_theta inputs = (\<lambda>(name, options) theta.
     err_bind (dict_get names name) (\<lambda>input_name.
     err_bind (dict_get inputs input_name) (\<lambda>val.
     err_bind (dict_get idxs_in_theta name) (\<lambda>idxs.
     np_setitem theta idxs [length val] val))))"

record unpacked =
  unp_x0 :: "real list"
  unp_theta :: "real list"
  unp_t_initial :: real
  unp_t_duration :: real

definition unpack_inputs :: "comp \<Rightarrow> vector \<Rightarrow> error + unpacked" where
  "unpack_inputs c inputs =
     err_bind (for_each (unpack_states_step c inputs) (state_options c)
                 (replicate (x_size c) 0)) (\<lambda>x0.
     err_bind (dict_get inputs ''t_initial'') (\<lambda>t_initial.
     err_bind (np_setelem (replicate (theta_size c) 0) 0 t_initial) (\<lambda>theta1.
     err_bind (dict_get inputs ''t_duration'') (\<lambda>t_duration.
     err_bind (np_setelem theta1 1 t_duration) (\<lambda>theta2.
     err_bind (for_each (unpack_theta_step (param_input_names c) (parameter_idxs_in_theta c) inputs)
                 (parameter_options c) theta2) (\<lambda>theta3.
     err_bind (for_each (unpack_theta_step (control_input_names c) (control_idxs_in_theta c) inputs)
                 (control_options c) theta3) (\<lambda>theta4.
     err_bind (for_each (unpack_theta_step (polynomial_control_input_names c)
                   (polynomial_control_idxs_in_theta c) inputs)
                 (polynomial_control_options c) theta4) (\<lambda>theta5.
     Inr \<lparr> unp_x0 = x0, unp_theta = theta5,
           unp_t_initial = hd t_initial, unp_t_duration = hd t_duration \<rparr>))))))))"

text \<open>The initial value \<open>y0\<close> handed to the first segment.\<close>

definition initial_y0 :: "comp \<Rightarrow> bool \<Rightarrow> real list \<Rightarrow> real list" where
  "initial_y0 c derivs x0 =
     (if derivs then x0 @ concat (dx_dz_0 c) @ concat (dt_dz_0 c) else x0)"

text \<open>The requested times of segment \<open>i\<close> and its time span.\<close>

definition segment_times ::
  "grid_data \<Rightarrow> nat \<Rightarrow> real \<Rightarrow> real \<Rightarrow> error + real list \<times> (real \<times> real)" where
  "segment_times ogd i t_initial t_duration =
     err_bind (np_index (segment_indices ogd) i) (\<lambda>seg.
       let eval_nodes_ptau = np_slice (node_ptau ogd) (fst seg) (snd seg);
           t_eval_seg = map (\<lambda>ptau. t_initial + 0.5 * (ptau + 1) * t_duration) eval_nodes_ptau
       in if t_eval_seg = [] then Inl IndexError
          else Inr (t_eval_seg, (hd t_eval_seg, last t_eval_seg)))"

text \<open>
  \<^verbatim>\<open>buf[r:r+n, :] = V\<close>: \<open>V\<close> has as many rows as the target or a single one, and rows of the
  width of the buffer. The solver returns states as long as \<open>y0\<close>, so the widths agree
  for a buffer allocated by \<^verbatim>\<open>_configure_storage\<close>.
\<close>

definition np_set_rows ::
  "real list list \<Rightarrow> nat \<Rightarrow> nat \<Rightarrow> real list list \<Rightarrow> error + real list list" where
  "np_set_rows buf r n V =
     (let lo = min r (length buf); hi = min (r + n) (length buf) in
      if \<not> list_all (\<lambda>v. list_all (\<lambda>b. length b = length v) buf) V then Inl ValueError
      else if length V = hi - lo then Inr (take lo buf @ V @ drop hi buf)
      else if length V = 1 then Inr (take lo buf @ replicate (hi - lo) (hd V) @ drop hi buf)
      else Inl ValueError)"

record prop_state =
  ps_y0 :: "real list"
  ps_row_seg_i :: nat
  ps_x_out :: "real list list"
  ps_t_out :: "real list list"
  ps_dx_dz_out :: "real list list option"
  ps_dt_dz_out :: "real list list option"
  ps_calls :: "ivp_call list"

definition set_derivs_rows ::
  "real list list option \<Rightarrow> nat \<Rightarrow> nat \<Rightarrow> real list list \<Rightarrow> error + real list list option" where
  "set_derivs_rows buf r n V =
     (case buf of None \<Rightarrow> Inl TypeError
      | Some b \<Rightarrow> err_bind (np_set_rows b r n V) (\<lambda>b'. Inr (Some b')))"

definition propagate_segment ::
  "comp \<Rightarrow> ivp_solver \<Rightarrow> (nat \<Rightarrow> ode_eval) \<Rightarrow> unpacked \<Rightarrow> bool \<Rightarrow> nat \<Rightarrow> prop_state
     \<Rightarrow> error + prop_state" where
  "propagate_segment c solve_ivp eval_ode u derivs i st =
     (let n_x = x_size c; n_theta = theta_size c; n_z = n_x + n_theta;
          theta = unp_theta u
      in
      err_bind (segment_times (output_grid_data c) i (unp_t_initial u) (unp_t_duration u))
        (\<lambda>(t_eval_seg, t_span_seg).
      err_bind (solve_ivp
                  (if derivs then (\<lambda>t y. f_augmented c (eval_ode i) t y theta (dtheta_dz c))
                   else (\<lambda>t x. f_primal c (eval_ode i) t x theta))
                  t_span_seg t_eval_seg (ps_y0 st)) (\<lambda>sol.
      err_bind (np_index (nnps c) i) (\<lambda>nnps_i.
      err_bind (if derivs
                then err_bind (set_derivs_rows (ps_dx_dz_out st) (ps_row_seg_i st) nnps_i
                                 (map (\<lambda>row. np_slice row n_x (n_x + n_x * n_z)) (sol_y_T sol)))
                       (\<lambda>dx. err_bind (set_derivs_rows (ps_dt_dz_out st) (ps_row_seg_i st) nnps_i
                                         (map (np_last n_z) (sol_y_T sol)))
                       (\<lambda>dt. Inr (dx, dt)))
                else Inr (ps_dx_dz_out st, ps_dt_dz_out st)) (\<lambda>(dx, dt).
      err_bind (np_set_rows (ps_x_out st) (ps_row_seg_i st) nnps_i
                  (map (\<lambda>row. np_slice row 0 n_x) (sol_y_T sol))) (\<lambda>x_out'.
      err_bind (np_set_rows (ps_t_out st) (ps_row_seg_i st) nnps_i
                  (map (\<lambda>t. [t]) (sol_t sol))) (\<lambda>t_out'.
      if sol_y_T sol = [] then Inl IndexError
      else Inr \<lparr> ps_y0 = last (sol_y_T sol),
                 ps_row_seg_i = ps_row_seg_i st + nnps_i,
                 ps_x_out = x_out', ps_t_out = t_out',
                 ps_dx_dz_out = dx, ps_dt_dz_out = dt,
                 ps_calls = ps_calls st @
                   [\<lparr> call_segment = i, call_t_span = t_span_seg, call_t_eval = t_eval_seg,
                      call_y0 = ps_y0 st, call_theta = theta,
                      call_dtheta_dz = (if derivs then Some (dtheta_dz c) else None),
                      call_sol = sol \<rparr>] \<rparr>)))))))"

record prop_result =
  res_x_out :: "real list list"
  res_t_out :: "real list list"
  res_dx_dz_out :: "real list list option"
  res_dt_dz_out :: "real list list option"
  res_calls :: "ivp_call list"

definition or_else :: "'a option \<Rightarrow> 'a \<Rightarrow> 'a" where
  "or_else x d = (case x of None \<Rightarrow> d | Some v \<Rightarrow> v)"

definition propagate ::
  "comp \<Rightarrow> ivp_solver \<Rightarrow> (nat \<Rightarrow> ode_eval) \<Rightarrow> vector \<Rightarrow> bool option
     \<Rightarrow> real list list option \<Rightarrow> real list list option
     \<Rightarrow> real list list option \<Rightarrow> real list list option \<Rightarrow> error + prop_result" where
  "propagate c solve_ivp eval_ode inputs propagate_derivs x_out_arg t_out_arg dx_dz_out_arg
       dt_dz_out_arg =
     (let nn = sum_list (nnps c);
          x_out0 = or_else x_out_arg (np_zeros nn (x_size c));
          t_out0 = or_else t_out_arg (np_zeros nn 1);
          derivs = or_else propagate_derivs (propagate_derivs_option c)
      in
      err_bind (unpack_inputs c inputs) (\<lambda>u.
        let dx0 = (if derivs
                   then Some (or_else dx_dz_out_arg (np_zeros nn (x_size c * z_size c)))
                   else None);
            dt0 = (if derivs then Some (or_else dt_dz_out_arg (np_zeros nn (z_size c)))
                   else None);
            st0 = \<lparr> ps_y0 = initial_y0 c derivs (unp_x0 u), ps_row_seg_i = 0,
                    ps_x_out = x_out0, ps_t_out = t_out0,
                    ps_dx_dz_out = dx0, ps_dt_dz_out = dt0, ps_calls = [] \<rparr>
        in
        err_bind (for_each (propagate_segment c solve_ivp eval_ode u derivs)
                    [0..<num_segments (output_grid_data c)] st0) (\<lambda>st.
        Inr \<lparr> res_x_out = ps_x_out st, res_t_out = ps_t_out st,
              res_dx_dz_out = ps_dx_dz_out st, res_dt_dz_out = ps_dt_dz_out st,
              res_calls = ps_calls st \<rparr>)))"

subsection \<open>The cache, the outputs and the Jacobian\<close>

text \<open>
  \<^verbatim>\<open>inputs.get_hash()\<close> belongs to OpenMDAO and is a parameter \<open>get_hash\<close> of the model.

  \<open>refresh\<close> is the block that \<^verbatim>\<open>compute\<close> and \<^verbatim>\<open>compute_partials\<close> both start with: compare the
  hash of the inputs with the cached one and propagate if they differ. The buffers of the
  component are passed to \<^verbatim>\<open>_propagate\<close> and overwritten in place; a derivative buffer that
  is \<^verbatim>\<open>None\<close> stays \<^verbatim>\<open>None\<close>, since \<^verbatim>\<open>_propagate\<close> then fills arrays of its own and the caller
  drops what it returns. The second component of the result holds the call log of every
  propagation pass made: none or one. After an exception the model keeps the error only.
\<close>

definition refresh ::
  "comp \<Rightarrow> ivp_solver \<Rightarrow> (nat \<Rightarrow> ode_eval) \<Rightarrow> (vector \<Rightarrow> string) \<Rightarrow> vector \<Rightarrow> bool
     \<Rightarrow> error + comp \<times> ivp_call list list" where
  "refresh c solve_ivp eval_ode get_hash inputs derivs =
     (let inputs_hash = get_hash inputs in
      if inputs_hash \<noteq> inputs_cache c
      then err_bind (propagate c solve_ivp eval_ode inputs (Some derivs)
                       (Some (x_out c)) (Some (t_out c)) (dx_dz_out c) (dt_dz_out c)) (\<lambda>res.
             Inr (c\<lparr> x_out := res_x_out res, t_out := res_t_out res,
                     dx_dz_out := (if derivs \<and> dx_dz_out c \<noteq> None then res_dx_dz_out res
                                   else dx_dz_out c),
                     dt_dz_out := (if derivs \<and> dt_dz_out c \<noteq> None then res_dt_dz_out res
                                   else dt_dz_out c),
                     inputs_cache := inputs_hash \<rparr>,
                  [res_calls res]))
      else Inr (c, []))"

type_synonym outputs = "string \<rightharpoonup> real ndarray"

definition scalar_of :: "real list \<Rightarrow> error + real" where
  "scalar_of v = (case v of [r] \<Rightarrow> Inr r | _ \<Rightarrow> Inl ValueError)"

definition compute_states_step ::
  "comp \<Rightarrow> string \<times> var_options \<Rightarrow> outputs \<Rightarrow> error + outputs" where
  "compute_states_step c = (\<lambda>(state_name, options) outs.
     err_bind (dict_get (state_output_names c) state_name) (\<lambda>of_name.
     err_bind (dict_get (state_idxs c) state_name) (\<lambda>idxs.
     Inr (outs(of_name \<mapsto> Arr2 (map (\<lambda>row. np_slice row (fst idxs) (snd idxs)) (x_out c)))))))"

record 'a run =
  run_comp :: comp
  run_value :: 'a
  run_passes :: "ivp_call list list"

definition compute ::
  "comp \<Rightarrow> ivp_solver \<Rightarrow> (nat \<Rightarrow> ode_eval) \<Rightarrow> (vector \<Rightarrow> string) \<Rightarrow> vector \<Rightarrow> outputs
     \<Rightarrow> error + outputs run" where
  "compute c solve_ivp eval_ode get_hash inputs outs =
     err_bind (refresh c solve_ivp eval_ode get_hash inputs (propagate_derivs_option c))
       (\<lambda>(c', passes).
     let t = t_out c'; t_name = time_name c'; outs1 = outs(t_name \<mapsto> Arr2 t) in
     err_bind (dict_get inputs ''t_initial'') (\<lambda>ti_arr.
     err_bind (scalar_of ti_arr) (\<lambda>ti.
     let outs2 = outs1(t_name @ ''_phase'' \<mapsto> Arr2 (map (map (\<lambda>v. v - ti)) t)) in
     err_bind (dict_get inputs ''t_duration'') (\<lambda>td_arr.
     err_bind (scalar_of td_arr) (\<lambda>td.
     let outs3 = outs2(''t_final'' \<mapsto> Arr1 [ti + td]) in
     err_bind (for_each (compute_states_step c') (state_options c') outs3) (\<lambda>outs4.
     Inr \<lparr> run_comp = c', run_value = outs4, run_passes = passes \<rparr>))))))"

type_synonym jacobian = "string \<times> string \<rightharpoonup> real ndarray"

text \<open>\<^verbatim>\<open>M[idx]\<close> for a column index \<open>idx\<close> of the column map.\<close>

definition np_cols :: "real list list \<Rightarrow> col_index \<Rightarrow> error + real ndarray" where
  "np_cols M idx =
     (case idx of
        Cols a b \<Rightarrow> Inr (Arr2 (map (\<lambda>row. np_slice row a b) M))
      | Col k \<Rightarrow> if list_all (\<lambda>row. k < length row) M then Inr (Arr1 (map (\<lambda>row. row ! k) M))
                 else Inl IndexError)"

definition set_partial ::
  "comp \<Rightarrow> real list list option \<Rightarrow> string \<Rightarrow> string \<Rightarrow> jacobian \<Rightarrow> error + jacobian" where
  "set_partial c dx_dz of_name wrt partials =
     err_bind (dict_get (partial_dx_dz_idxs c) (of_name, wrt)) (\<lambda>idx.
       case dx_dz of None \<Rightarrow> Inl TypeError
       | Some M \<Rightarrow> err_bind (np_cols M idx) (\<lambda>v. Inr (partials((of_name, wrt) \<mapsto> v))))"

text \<open>The body shared by the four inner loops of \<^verbatim>\<open>compute_partials\<close>.\<close>

definition partials_block ::
  "comp \<Rightarrow> real list list option \<Rightarrow> string \<Rightarrow> (string \<rightharpoonup> string) \<Rightarrow> string \<times> var_options
     \<Rightarrow> jacobian \<Rightarrow> error + jacobian" where
  "partials_block c dx_dz of_name names = (\<lambda>(name, options) partials.
     err_bind (dict_get names name) (\<lambda>wrt. set_partial c dx_dz of_name wrt partials))"

definition compute_partials_step ::
  "comp \<Rightarrow> real list list option \<Rightarrow> string \<times> var_options \<Rightarrow> jacobian \<Rightarrow> error + jacobian" where
  "compute_partials_step c dx_dz = (\<lambda>(state_name, options) partials.
     err_bind (dict_get (state_output_names c) state_name) (\<lambda>of_name.
     err_bind (for_each (partials_block c dx_dz of_name (state_input_names c))
                 (state_options c) partials) (\<lambda>p1.
     err_bind (set_partial c dx_dz of_name ''t_initial'' p1) (\<lambda>p2.
     err_bind (set_partial c dx_dz of_name ''t_duration'' p2) (\<lambda>p3.
     err_bind (for_each (partials_block c dx_dz of_name (param_input_names c))
                 (parameter_options c) p3) (\<lambda>p4.
     err_bind (for_each (partials_block c dx_dz of_name (control_input_names c))
                 (control_options c) p4) (\<lambda>p5.
     for_each (partials_block c dx_dz of_name (polynomial_control_input_names c))
       (polynomial_control_options c) p5)))))))"

definition compute_partials ::
  "comp \<Rightarrow> ivp_solver \<Rightarrow> (nat \<Rightarrow> ode_eval) \<Rightarrow> (vector \<Rightarrow> string) \<Rightarrow> vector \<Rightarrow> jacobian
     \<Rightarrow> error + jacobian run" where
  "compute_partials c solve_ivp eval_ode get_hash inputs partials =
     err_bind (refresh c solve_ivp eval_ode get_hash inputs True) (\<lambda>(c', passes).
     let t_name = time_name c'; dt_dz = dt_dz_out c'; dx_dz = dx_dz_out c' in
     case dt_dz of None \<Rightarrow> Inl TypeError
     | Some dt \<Rightarrow>
         err_bind (np_cols dt (Col (x_size c' + 1))) (\<lambda>col.
         let p1 = partials((t_name, ''t_duration'') \<mapsto> col) in
         err_bind (np_cols dt (Col (x_size c' + 1))) (\<lambda>col2.
         let p2 = p1((t_name @ ''_phase'', ''t_duration'') \<mapsto> col2) in
         err_bind (for_each (compute_partials_step c' dx_dz) (state_options c') p2) (\<lambda>p3.
         Inr \<lparr> run_comp = c', run_value = p3, run_passes = passes \<rparr>))))"

section \<open>Vocabulary of the properties\<close>

(*DEFS-END*)
subsection \<open>A small configuration\<close>

text \<open>
  Two segments with three nodes each, one scalar state \<open>x\<close> and one scalar parameter \<open>k\<close>;
  a second grid with another interior segment end.
\<close>

definition ex_grid :: grid_data where
  "ex_grid = \<lparr> num_segments = 2, segment_ends = [-1, 0, 1],
      node_ptau = [-1, -1/2, 0, 0, 1/2, 1], segment_indices = [(0, 3), (3, 6)],
      subset_num_nodes_all = 6, subset_num_nodes_control_input = 4,
      subset_node_indices_control_input = [0, 1, 3, 4],
      subset_num_nodes_per_segment_all = [3, 3] \<rparr>"

definition ex_grid_shifted :: grid_data where
  "ex_grid_shifted = ex_grid \<lparr> segment_ends := [-1, 1/2, 1] \<rparr>"

definition scalar_opts :: var_options where
  "scalar_opts = \<lparr> opt_shape = [1], opt_order = 0 \<rparr>"

definition ex_comp :: comp where
  "ex_comp = init ex_grid ''time'' [(''x'', scalar_opts)] [(''k'', scalar_opts)] [] [] None True True"

text \<open>
  A solver and an ODE evaluation that only serve to run the model: the solver returns, at
  every requested time \<open>t\<close>, the initial state shifted by \<open>t\<close>.
\<close>

definition stub_solver :: ivp_solver where
  "stub_solver f sp t_eval y0 =
     Inr \<lparr> sol_t = t_eval, sol_y_T = map (\<lambda>t. map (\<lambda>v. v + t) y0) t_eval \<rparr>"

definition stub_ode :: "nat \<Rightarrow> ode_eval" where
  "stub_ode i x t theta d =
     Inr \<lparr> ode_x_dot = [[-1]], ode_f_x = [[-1]], ode_f_t = [[0]], ode_f_theta = [[0, 0, 5]] \<rparr>"

definition ex_unpacked :: unpacked where
  "ex_unpacked = \<lparr> unp_x0 = [1], unp_theta = [0, 2, 7], unp_t_initial = 0, unp_t_duration = 2 \<rparr>"

definition ex_layout :: comp where
  "ex_layout = ex_comp \<lparr> x_size := 1, theta_size := 3, z_size := 4, nnps := [3, 3] \<rparr>"

definition ex_state :: prop_state where
  "ex_state = \<lparr> ps_y0 = [1], ps_row_seg_i = 0, ps_x_out = np_zeros 6 1, ps_t_out = np_zeros 6 1,
       ps_dx_dz_out = None, ps_dt_dz_out = None, ps_calls = [] \<rparr>"

section \<open>Properties\<close>

subsection \<open>Exceptions of the set-up\<close>

lemma err_bind_simps [simp]:
  "err_bind (Inl e) f = Inl e" "err_bind (Inr x) f = f x"
  by (simp_all add: err_bind_def)

lemma err_bind_eq_Inr: "(err_bind r f = Inr y) = (\<exists>x. r = Inr x \<and> f x = Inr y)"
  by (cases r) simp_all

lemma err_bind_eq_Inl: "(err_bind r f = Inl e) = (r = Inl e \<or> (\<exists>x. r = Inr x \<and> f x = Inl e))"
  by (cases r) simp_all

lemma for_each_error:
  assumes "\<And>x s e. body x s = Inl e \<Longrightarrow> P e" and "for_each body xs s = Inl e"
  shows "P e"
  using assms(2)
proof (induction xs arbitrary: s)
  case Nil
  then show ?case by simp
next
  case (Cons x xs)
  then show ?case using assms(1) by (auto split: sum.splits)
qed

lemma dict_get_error: "dict_get d k = Inl e \<Longrightarrow> e = KeyError"
  by (simp add: dict_get_def split: option.splits)

lemma dx_dz_block_error: "dx_dz_block n os names sz x s = Inl e \<Longrightarrow> e = KeyError"
  by (cases x; cases s) (auto simp: dx_dz_block_def err_bind_eq_Inl Let_def dest: dict_get_error)

lemma for_each_dx_dz_block_error: "for_each (dx_dz_block n os names sz) xs s = Inl e \<Longrightarrow> e = KeyError"
  by (rule for_each_error[where body="dx_dz_block n os names sz"]) (auto dest: dx_dz_block_error)

lemma build_dx_dz_idxs_step_error: "build_dx_dz_idxs_step c x s = Inl e \<Longrightarrow> e = KeyError"
  by (cases x)
     (auto simp: build_dx_dz_idxs_step_def err_bind_eq_Inl Let_def
           dest: dict_get_error for_each_dx_dz_block_error)

lemma for_each_build_dx_dz_idxs_step_error:
  "for_each (build_dx_dz_idxs_step c) xs s = Inl e \<Longrightarrow> e = KeyError"
  by (rule for_each_error[where body="build_dx_dz_idxs_step c"])
     (auto dest: build_dx_dz_idxs_step_error)

lemma build_dx_dz_idxs_error: "build_dx_dz_idxs c = Inl e \<Longrightarrow> e = KeyError"
  unfolding build_dx_dz_idxs_def err_bind_eq_Inl
  by (auto dest: for_each_build_dx_dz_idxs_step_error)

lemma configure_storage_error: "configure_storage c = Inl e \<Longrightarrow> e = IndexError \<or> e = KeyError"
  by (auto simp: configure_storage_def Let_def err_bind_eq_Inl split: if_splits
           dest: build_dx_dz_idxs_error)

lemma setup_storage_error: "setup_storage c = Inl e \<Longrightarrow> e = IndexError \<or> e = KeyError"
  by (auto simp: setup_storage_def split: if_splits dest: configure_storage_error)


lemma f_augmented_ignores_segment_ends:
  "f_augmented (c\<lparr> input_grid_data := g,
                 output_grid_data := (output_grid_data c)\<lparr> segment_ends := e \<rparr> \<rparr>) =
   f_augmented c"
  by (intro ext) (simp add: f_augmented_def)

lemma f_primal_ignores_segment_ends:
  "f_primal (c\<lparr> input_grid_data := g,
                 output_grid_data := (output_grid_data c)\<lparr> segment_ends := e \<rparr> \<rparr>) =
   f_primal c"
  by (intro ext) (simp add: f_primal_def)

lemma unpack_inputs_ignores_segment_ends:
  "unpack_inputs (c\<lparr> input_grid_data := g,
                 output_grid_data := (output_grid_data c)\<lparr> segment_ends := e \<rparr> \<rparr>) =
   unpack_inputs c"
proof -
  have "unpack_states_step (c\<lparr> input_grid_data := g,
                 output_grid_data := (output_grid_data c)\<lparr> segment_ends := e \<rparr> \<rparr>) =
        unpack_states_step c"
    by (intro ext) (simp add: unpack_states_step_def)
  then show ?thesis
    by (intro ext) (simp add: unpack_inputs_def)
qed

lemma propagate_segment_ignores_segment_ends:
  "propagate_segment (c\<lparr> input_grid_data := g,
                 output_grid_data := (output_grid_data c)\<lparr> segment_ends := e \<rparr> \<rparr>) =
   propagate_segment c"
  by (intro ext)
     (simp add: propagate_segment_def f_augmented_ignores_segment_ends
        f_primal_ignores_segment_ends segment_times_def Let_def cong: if_cong)

lemma propagate_ignores_segment_ends:
  "propagate (c\<lparr> input_grid_data := g,
                 output_grid_data := (output_grid_data c)\<lparr> segment_ends := e \<rparr> \<rparr>) =
   propagate c"
  by (intro ext)
     (simp add: propagate_def unpack_inputs_ignores_segment_ends
        propagate_segment_ignores_segment_ends initial_y0_def Let_def cong: if_cong)

text \<open>
  C9. Set-up raises the \<^verbatim>\<open>RuntimeError\<close> exactly when the segment ends of the input grid
  and of the output grid differ, and a propagation does not look at the segment ends of
  either grid again: replacing them leaves \<^verbatim>\<open>_propagate\<close> unchanged.
\<close>

theorem setup_raises_iff_misaligned:
  "((setup_comp c = Inl RuntimeError)
     = (segment_ends (input_grid_data c) \<noteq> segment_ends (output_grid_data c)))
   \<and> propagate (c\<lparr> input_grid_data := g,
                    output_grid_data := (output_grid_data c)\<lparr> segment_ends := e \<rparr> \<rparr>)
       = propagate c"
  by (auto simp: setup_comp_def is_aligned_with_def Let_def propagate_ignores_segment_ends
           dest: setup_storage_error)

theorem setup_raises_iff_misaligned_witness:
  "setup_comp (ex_comp\<lparr> output_grid_data := ex_grid_shifted \<rparr>) = Inl RuntimeError
   \<and> setup_comp ex_comp \<noteq> Inl RuntimeError"
  using setup_raises_iff_misaligned [of "ex_comp\<lparr> output_grid_data := ex_grid_shifted \<rparr>"]
        setup_raises_iff_misaligned [of ex_comp]
  by (simp add: ex_comp_def init_def ex_grid_shifted_def ex_grid_def)

subsection \<open>One segment of the propagation\<close>

lemma propagate_segment_Inr:
  assumes "propagate_segment c solve_ivp eval_ode u derivs i st = Inr st'"
  shows "\<exists>t_eval t_span sol.
           segment_times (output_grid_data c) i (unp_t_initial u) (unp_t_duration u)
             = Inr (t_eval, t_span)
         \<and> solve_ivp (if derivs
                        then (\<lambda>t y. f_augmented c (eval_ode i) t y (unp_theta u) (dtheta_dz c))
                        else (\<lambda>t x. f_primal c (eval_ode i) t x (unp_theta u)))
               t_span t_eval (ps_y0 st) = Inr sol
         \<and> sol_y_T sol \<noteq> []
         \<and> ps_y0 st' = last (sol_y_T sol)
         \<and> ps_calls st' = ps_calls st @
               [\<lparr> call_segment = i, call_t_span = t_span, call_t_eval = t_eval,
                  call_y0 = ps_y0 st, call_theta = unp_theta u,
                  call_dtheta_dz = (if derivs then Some (dtheta_dz c) else None),
                  call_sol = sol \<rparr>]"
  using assms
  by (auto simp: propagate_segment_def Let_def err_bind_eq_Inr split: if_splits prod.splits)

lemma segment_times_Inr:
  assumes "segment_times ogd i t_initial t_duration = Inr (t_eval, t_span)"
  shows "\<exists>a b. np_index (segment_indices ogd) i = Inr (a, b)
           \<and> t_eval = map (\<lambda>ptau. t_initial + 0.5 * (ptau + 1) * t_duration)
                          (np_slice (node_ptau ogd) a b)
           \<and> t_eval \<noteq> [] \<and> t_span = (hd t_eval, last t_eval)"
  using assms
  by (auto simp: segment_times_def Let_def err_bind_eq_Inr split: if_splits)


lemma not_isl_Inr: "\<not> isl r \<Longrightarrow> r = Inr (projr r)"
  by (cases r) simp_all

lemma affine_time_bounds:
  fixes ptau t_initial t_duration :: real
  assumes "- 1 \<le> ptau" "ptau \<le> 1" "0 \<le> t_duration"
  shows "t_initial \<le> t_initial + 0.5 * (ptau + 1) * t_duration"
    and "t_initial + 0.5 * (ptau + 1) * t_duration \<le> t_initial + t_duration"
proof -
  have "0 \<le> (ptau + 1) * t_duration" using assms by simp
  then show "t_initial \<le> t_initial + 0.5 * (ptau + 1) * t_duration" by simp
  have "(ptau + 1) * t_duration \<le> 2 * t_duration"
    using assms by (intro mult_right_mono) simp_all
  then show "t_initial + 0.5 * (ptau + 1) * t_duration \<le> t_initial + t_duration" by simp
qed

text \<open>
  C7. The times requested from the solver for segment \<open>i\<close> are the images of the segment's
  node positions \<^verbatim>\<open>node_ptau[segment_indices[i,0]:segment_indices[i,1]]\<close> under
  \<open>t = t_initial + 0.5 * (ptau + 1) * t_duration\<close>, the time span is the pair of the first
  and the last of them, and for positions in \<open>[-1, 1]\<close> and a non-negative duration they lie
  in \<open>[t_initial, t_initial + t_duration]\<close>.
\<close>

theorem segment_node_times_affine:
  assumes "propagate_segment c solve_ivp eval_ode u derivs i st = Inr st'"
  shows "\<exists>a b call. np_index (segment_indices (output_grid_data c)) i = Inr (a, b)
           \<and> ps_calls st' = ps_calls st @ [call]
           \<and> call_segment call = i
           \<and> call_t_eval call \<noteq> []
           \<and> call_t_eval call =
                map (\<lambda>ptau. unp_t_initial u + 0.5 * (ptau + 1) * unp_t_duration u)
                  (np_slice (node_ptau (output_grid_data c)) a b)
           \<and> call_t_span call = (hd (call_t_eval call), last (call_t_eval call))
           \<and> (\<forall>t \<in> set (call_t_eval call).
                 (\<forall>ptau \<in> set (np_slice (node_ptau (output_grid_data c)) a b).
                    - 1 \<le> ptau \<and> ptau \<le> 1) \<and> 0 \<le> unp_t_duration u
                 \<longrightarrow> unp_t_initial u \<le> t \<and> t \<le> unp_t_initial u + unp_t_duration u)"
proof -
  from propagate_segment_Inr [OF assms] obtain t_eval t_span sol where
    st: "segment_times (output_grid_data c) i (unp_t_initial u) (unp_t_duration u)
           = Inr (t_eval, t_span)"
    and calls: "ps_calls st' = ps_calls st @
               [\<lparr> call_segment = i, call_t_span = t_span, call_t_eval = t_eval,
                  call_y0 = ps_y0 st, call_theta = unp_theta u,
                  call_dtheta_dz = (if derivs then Some (dtheta_dz c) else None),
                  call_sol = sol \<rparr>]"
    by blast
  from segment_times_Inr [OF st] obtain a b where
    ix: "np_index (segment_indices (output_grid_data c)) i = Inr (a, b)"
    and ev: "t_eval = map (\<lambda>ptau. unp_t_initial u + 0.5 * (ptau + 1) * unp_t_duration u)
                          (np_slice (node_ptau (output_grid_data c)) a b)"
    and ne: "t_eval \<noteq> []" and sp: "t_span = (hd t_eval, last t_eval)"
    by blast
  have bounds: "\<forall>t \<in> set t_eval.
                 (\<forall>ptau \<in> set (np_slice (node_ptau (output_grid_data c)) a b).
                    - 1 \<le> ptau \<and> ptau \<le> 1) \<and> 0 \<le> unp_t_duration u
                 \<longrightarrow> unp_t_initial u \<le> t \<and> t \<le> unp_t_initial u + unp_t_duration u"
    unfolding ev using affine_time_bounds by auto
  define call where "call =
               \<lparr> call_segment = i, call_t_span = t_span, call_t_eval = t_eval,
                  call_y0 = ps_y0 st, call_theta = unp_theta u,
                  call_dtheta_dz = (if derivs then Some (dtheta_dz c) else None),
                  call_sol = sol \<rparr>"
  have sel: "call_segment call = i" "call_t_eval call = t_eval" "call_t_span call = t_span"
    by (simp_all add: call_def)
  have calls': "ps_calls st' = ps_calls st @ [call]"
    by (simp add: calls call_def)
  have "np_index (segment_indices (output_grid_data c)) i = Inr (a, b)
           \<and> ps_calls st' = ps_calls st @ [call]
           \<and> call_segment call = i
           \<and> call_t_eval call \<noteq> []
           \<and> call_t_eval call =
                map (\<lambda>ptau. unp_t_initial u + 0.5 * (ptau + 1) * unp_t_duration u)
                  (np_slice (node_ptau (output_grid_data c)) a b)
           \<and> call_t_span call = (hd (call_t_eval call), last (call_t_eval call))
           \<and> (\<forall>t \<in> set (call_t_eval call).
                 (\<forall>ptau \<in> set (np_slice (node_ptau (output_grid_data c)) a b).
                    - 1 \<le> ptau \<and> ptau \<le> 1) \<and> 0 \<le> unp_t_duration u
                 \<longrightarrow> unp_t_initial u \<le> t \<and> t \<le> unp_t_initial u + unp_t_duration u)"
    unfolding sel using ix calls' ev ne sp bounds by blast
  then show ?thesis by blast
qed

theorem segment_node_times_affine_witness:
  "\<not> isl (propagate_segment ex_layout stub_solver stub_ode ex_unpacked False 1 ex_state)
   \<and> call_t_eval (last (ps_calls (projr
         (propagate_segment ex_layout stub_solver stub_ode ex_unpacked False 1 ex_state))))
       = [1, 3 / 2, 2]
   \<and> call_t_span (last (ps_calls (projr
         (propagate_segment ex_layout stub_solver stub_ode ex_unpacked False 1 ex_state))))
       = (1, 2)"
proof -
  let ?r = "propagate_segment ex_layout stub_solver stub_ode ex_unpacked False 1 ex_state"
  have n: "\<not> isl ?r"
    by code_simp
  from segment_node_times_affine [OF not_isl_Inr [OF n]] obtain a b call where
    ix: "np_index (segment_indices (output_grid_data ex_layout)) 1 = Inr (a, b)"
    and calls: "ps_calls (projr ?r) = ps_calls ex_state @ [call]"
    and ev: "call_t_eval call =
       map (\<lambda>ptau. unp_t_initial ex_unpacked + 0.5 * (ptau + 1) * unp_t_duration ex_unpacked)
         (np_slice (node_ptau (output_grid_data ex_layout)) a b)"
    and sp: "call_t_span call = (hd (call_t_eval call), last (call_t_eval call))"
    by blast
  from ix have ab: "a = 3" "b = 6"
    by (simp_all add: ex_layout_def ex_comp_def init_def ex_grid_def np_index_def)
  have "call_t_eval call = [1, 3 / 2, 2]"
    unfolding ev ab
    by (simp add: ex_layout_def ex_comp_def init_def ex_grid_def ex_unpacked_def np_slice_def)
  with sp calls n show ?thesis by simp
qed


(*THMS-END*)
end
